theory Spec2Isabelle
  imports Main
begin

section \<open>State model\<close>

text \<open>
  The Go structs \<^verbatim>\<open>CornerColors\<close>, \<^verbatim>\<open>corner\<close>, \<^verbatim>\<open>center\<close> and \<^verbatim>\<open>Skewb\<close>.
  The \<^verbatim>\<open>cornerPositions\<close> and \<^verbatim>\<open>centerPositions\<close> fields hold the drawing
  coordinates of a slot; only \<^verbatim>\<open>Draw\<close> reads them and no function writes them, so
  they are left out of the records.
\<close>

record CornerColors =
  first :: string
  second :: string
  third :: string

record corner =
  colors :: CornerColors

record center =
  color :: string

record Skewb =
  ufr :: corner
  urb :: corner
  ulf :: corner
  ubl :: corner
  drf :: corner
  dbr :: corner
  dfl :: corner
  dlb :: corner
  up :: center
  front :: center
  right :: center
  "back" :: center
  left :: center
  down :: center

type_synonym Move = string

text \<open>A Go \<^verbatim>\<open>error\<close> value is modelled by its message; \<^verbatim>\<open>nil\<close> is \<open>None\<close>.\<close>

type_synonym error = string

definition prime :: char where "prime = CHR 0x27"

definition U :: Move where "U = ''U''"
definition UPrime :: Move where "UPrime = ''U'' @ [prime]"
definition R :: Move where "R = ''R''"
definition RPrime :: Move where "RPrime = ''R'' @ [prime]"
definition LittleR :: Move where "LittleR = ''r''"
definition LittleRPrime :: Move where "LittleRPrime = ''r'' @ [prime]"
definition B :: Move where "B = ''B''"
definition BPrime :: Move where "BPrime = ''B'' @ [prime]"
definition LittleB :: Move where "LittleB = ''b''"
definition LittleBPrime :: Move where "LittleBPrime = ''b'' @ [prime]"
definition L :: Move where "L = ''L''"
definition LPrime :: Move where "LPrime = ''L'' @ [prime]"
definition LittleL :: Move where "LittleL = ''l''"
definition LittleLPrime :: Move where "LittleLPrime = ''l'' @ [prime]"
definition F :: Move where "F = ''F''"
definition FPrime :: Move where "FPrime = ''F'' @ [prime]"
definition LittleF :: Move where "LittleF = ''f''"
definition LittleFPrime :: Move where "LittleFPrime = ''f'' @ [prime]"
definition X :: Move where "X = ''x''"
definition XPrime :: Move where "XPrime = ''x'' @ [prime]"
definition X2 :: Move where "X2 = ''x2''"
definition Y :: Move where "Y = ''y''"
definition YPrime :: Move where "YPrime = ''y'' @ [prime]"
definition Y2 :: Move where "Y2 = ''y2''"
definition Z :: Move where "Z = ''z''"
definition ZPrime :: Move where "ZPrime = ''z'' @ [prime]"
definition Z2 :: Move where "Z2 = ''z2''"

definition ErrWCAMove :: error where
  \<open>ErrWCAMove = ''wca move is not supported; valid types are: "U", "U'" "R", "R'" "B", "B'" "L", "L'", "x", "x'", "x2", "y", "y'", "y2", "z", "z'", "z2"''\<close>

definition ErrColor :: error where
  "ErrColor = ''color is not part of Skewb''"

definition clockwise :: bool where "clockwise = True"
definition itsY :: bool where "itsY = True"
definition equal_v :: bool where "equal_v = True"
definition counterClockwise :: bool where "counterClockwise = False"
definition itsntY :: bool where "itsntY = False"
definition notEqual :: bool where "notEqual = False"

definition layerCornerColor :: int where "layerCornerColor = 0"
definition firstCornerColor :: int where "firstCornerColor = 1"
definition secondCornerColor :: int where "secondCornerColor = 2"
definition otherCornerColor :: int where "otherCornerColor = - 1"

text \<open>
  The variable \<^verbatim>\<open>equal\<close> is \<open>equal_v\<close> here and the method \<^verbatim>\<open>equal\<close> is
  \<open>equal_m\<close>: Go keeps the two apart, and \<open>equal\<close> is a constant of HOL.
\<close>

text \<open>\<^verbatim>\<open>fmt.Sprintf("%v %v", a, b)\<close> and \<^verbatim>\<open>fmt.Errorf("%v %v", a, err)\<close> on strings.\<close>

definition Sprintf :: "string \<Rightarrow> string \<Rightarrow> string" where
  "Sprintf a b = a @ '' '' @ b"

definition Errorf :: "string \<Rightarrow> error \<Rightarrow> error" where
  "Errorf a e = a @ '' '' @ e"

definition New :: "string \<Rightarrow> string \<Rightarrow> string \<Rightarrow> string \<Rightarrow> string \<Rightarrow> string \<Rightarrow> Skewb" where
  "New upColor frontColor rightColor backColor leftColor downColor =
    \<lparr> ufr = \<lparr>colors = \<lparr>first = upColor, second = frontColor, third = rightColor\<rparr>\<rparr>,
      urb = \<lparr>colors = \<lparr>first = upColor, second = rightColor, third = backColor\<rparr>\<rparr>,
      ulf = \<lparr>colors = \<lparr>first = upColor, second = leftColor, third = frontColor\<rparr>\<rparr>,
      ubl = \<lparr>colors = \<lparr>first = upColor, second = backColor, third = leftColor\<rparr>\<rparr>,
      drf = \<lparr>colors = \<lparr>first = downColor, second = rightColor, third = frontColor\<rparr>\<rparr>,
      dbr = \<lparr>colors = \<lparr>first = downColor, second = backColor, third = rightColor\<rparr>\<rparr>,
      dfl = \<lparr>colors = \<lparr>first = downColor, second = frontColor, third = leftColor\<rparr>\<rparr>,
      dlb = \<lparr>colors = \<lparr>first = downColor, second = leftColor, third = backColor\<rparr>\<rparr>,
      up = \<lparr>color = upColor\<rparr>,
      front = \<lparr>color = frontColor\<rparr>,
      right = \<lparr>color = rightColor\<rparr>,
      back = \<lparr>color = backColor\<rparr>,
      left = \<lparr>color = leftColor\<rparr>,
      down = \<lparr>color = downColor\<rparr> \<rparr>"

section \<open>Pointers into a state\<close>

text \<open>
  The move primitives take \<^verbatim>\<open>*corner\<close> and \<^verbatim>\<open>*center\<close> arguments that point at
  fields of one \<^verbatim>\<open>Skewb\<close>. A pointer is modelled by the name of the field it
  addresses, read and written through the state.
\<close>

datatype cornerPtr = Ref_ufr | Ref_urb | Ref_ulf | Ref_ubl | Ref_drf | Ref_dbr | Ref_dfl | Ref_dlb

datatype centerPtr = Ref_up | Ref_front | Ref_right | Ref_back | Ref_left | Ref_down

fun getCorner :: "cornerPtr \<Rightarrow> Skewb \<Rightarrow> corner" where
  "getCorner Ref_ufr s = ufr s"
| "getCorner Ref_urb s = urb s"
| "getCorner Ref_ulf s = ulf s"
| "getCorner Ref_ubl s = ubl s"
| "getCorner Ref_drf s = drf s"
| "getCorner Ref_dbr s = dbr s"
| "getCorner Ref_dfl s = dfl s"
| "getCorner Ref_dlb s = dlb s"

fun setCorner :: "cornerPtr \<Rightarrow> corner \<Rightarrow> Skewb \<Rightarrow> Skewb" where
  "setCorner Ref_ufr c s = s\<lparr>ufr := c\<rparr>"
| "setCorner Ref_urb c s = s\<lparr>urb := c\<rparr>"
| "setCorner Ref_ulf c s = s\<lparr>ulf := c\<rparr>"
| "setCorner Ref_ubl c s = s\<lparr>ubl := c\<rparr>"
| "setCorner Ref_drf c s = s\<lparr>drf := c\<rparr>"
| "setCorner Ref_dbr c s = s\<lparr>dbr := c\<rparr>"
| "setCorner Ref_dfl c s = s\<lparr>dfl := c\<rparr>"
| "setCorner Ref_dlb c s = s\<lparr>dlb := c\<rparr>"

fun getCenter :: "centerPtr \<Rightarrow> Skewb \<Rightarrow> center" where
  "getCenter Ref_up s = up s"
| "getCenter Ref_front s = front s"
| "getCenter Ref_right s = right s"
| "getCenter Ref_back s = back s"
| "getCenter Ref_left s = left s"
| "getCenter Ref_down s = down s"

fun setCenter :: "centerPtr \<Rightarrow> center \<Rightarrow> Skewb \<Rightarrow> Skewb" where
  "setCenter Ref_up c s = s\<lparr>up := c\<rparr>"
| "setCenter Ref_front c s = s\<lparr>front := c\<rparr>"
| "setCenter Ref_right c s = s\<lparr>right := c\<rparr>"
| "setCenter Ref_back c s = s\<lparr>back := c\<rparr>"
| "setCenter Ref_left c s = s\<lparr>left := c\<rparr>"
| "setCenter Ref_down c s = s\<lparr>down := c\<rparr>"

text \<open>Assignment to \<^verbatim>\<open>p.colors\<close> and to \<^verbatim>\<open>p.color\<close> through a pointer.\<close>

definition setColors :: "cornerPtr \<Rightarrow> CornerColors \<Rightarrow> Skewb \<Rightarrow> Skewb" where
  "setColors p cc s = setCorner p ((getCorner p s)\<lparr>colors := cc\<rparr>) s"

definition setColor :: "centerPtr \<Rightarrow> string \<Rightarrow> Skewb \<Rightarrow> Skewb" where
  "setColor p c s = setCenter p ((getCenter p s)\<lparr>color := c\<rparr>) s"

section \<open>Move engine\<close>

text \<open>
  \<^verbatim>\<open>func (c *corner) rotate(isClockwise bool)\<close>, a simultaneous assignment; named
  \<open>rotate_corner\<close> because \<open>rotate\<close> is a list function of HOL.
\<close>

definition rotate_corner :: "cornerPtr \<Rightarrow> bool \<Rightarrow> Skewb \<Rightarrow> Skewb" where
  "rotate_corner c isClockwise s =
    (let cc = colors (getCorner c s) in
     if isClockwise = clockwise
     then setColors c (cc\<lparr>first := second cc, second := third cc, third := first cc\<rparr>) s
     else setColors c (cc\<lparr>first := third cc, second := first cc, third := second cc\<rparr>) s)"

definition rotateThreeCenters :: "centerPtr \<Rightarrow> centerPtr \<Rightarrow> centerPtr \<Rightarrow> bool \<Rightarrow> Skewb \<Rightarrow> Skewb" where
  "rotateThreeCenters a b c isClockwise s =
    (let ca = color (getCenter a s); cb = color (getCenter b s); cc = color (getCenter c s) in
     if isClockwise = clockwise
     then setColor c cb (setColor b ca (setColor a cc s))
     else setColor c ca (setColor b cc (setColor a cb s)))"

definition rotateThreeCorners :: "cornerPtr \<Rightarrow> cornerPtr \<Rightarrow> cornerPtr \<Rightarrow> bool \<Rightarrow> Skewb \<Rightarrow> Skewb" where
  "rotateThreeCorners a b c isClockwise s =
    (let ca = colors (getCorner a s); cb = colors (getCorner b s); cc = colors (getCorner c s) in
     if isClockwise = clockwise
     then setColors c cb (setColors b ca (setColors a cc s))
     else setColors c ca (setColors b cc (setColors a cb s)))"

definition applyMove ::
  "cornerPtr \<Rightarrow> cornerPtr \<Rightarrow> cornerPtr \<Rightarrow> cornerPtr \<Rightarrow> centerPtr \<Rightarrow> centerPtr \<Rightarrow> centerPtr
    \<Rightarrow> bool \<Rightarrow> Skewb \<Rightarrow> Skewb" where
  "applyMove rotationCenter firstCorner secondCorner thirdCorner
      firstCenter secondCenter thirdCenter isClockwise s =
    (let s = rotate_corner rotationCenter isClockwise s;
         s = rotate_corner firstCorner (\<not> isClockwise) s;
         s = rotate_corner secondCorner (\<not> isClockwise) s;
         s = rotate_corner thirdCorner (\<not> isClockwise) s;
         s = rotateThreeCenters firstCenter secondCenter thirdCenter isClockwise s
     in rotateThreeCorners firstCorner secondCorner thirdCorner isClockwise s)"

definition rotateFourCenters ::
  "centerPtr \<Rightarrow> centerPtr \<Rightarrow> centerPtr \<Rightarrow> centerPtr \<Rightarrow> bool \<Rightarrow> Skewb \<Rightarrow> Skewb" where
  "rotateFourCenters a b c d isClockwise s =
    (let ca = color (getCenter a s); cb = color (getCenter b s);
         cc = color (getCenter c s); cd = color (getCenter d s) in
     if isClockwise = clockwise
     then setColor d cc (setColor c cb (setColor b ca (setColor a cd s)))
     else setColor d ca (setColor c cd (setColor b cc (setColor a cb s))))"

definition rotateFourCorners ::
  "cornerPtr \<Rightarrow> cornerPtr \<Rightarrow> cornerPtr \<Rightarrow> cornerPtr \<Rightarrow> bool \<Rightarrow> Skewb \<Rightarrow> Skewb" where
  "rotateFourCorners a b c d isClockwise s =
    (let ca = colors (getCorner a s); cb = colors (getCorner b s);
         cc = colors (getCorner c s); cd = colors (getCorner d s) in
     if isClockwise = clockwise
     then setColors d cc (setColors c cb (setColors b ca (setColors a cd s)))
     else setColors d ca (setColors c cd (setColors b cc (setColors a cb s))))"

text \<open>One pass of \<^verbatim>\<open>applyRotation\<close>; the function runs it once, and once more when \<^verbatim>\<open>isDouble\<close>.\<close>

definition rotationPass ::
  "cornerPtr \<Rightarrow> cornerPtr \<Rightarrow> cornerPtr \<Rightarrow> cornerPtr \<Rightarrow> cornerPtr \<Rightarrow> cornerPtr \<Rightarrow> cornerPtr
    \<Rightarrow> cornerPtr \<Rightarrow> centerPtr \<Rightarrow> centerPtr \<Rightarrow> centerPtr \<Rightarrow> centerPtr \<Rightarrow> bool \<Rightarrow> bool
    \<Rightarrow> Skewb \<Rightarrow> Skewb" where
  "rotationPass firstCorner secondCorner thirdCorner fourthCorner fifthCorner sixthCorner
      seventhCorner eighthCorner firstCenter secondCenter thirdCenter fourthCenter
      isClockwise isY s =
    (let s = rotateFourCenters firstCenter secondCenter thirdCenter fourthCenter isClockwise s;
         s = rotateFourCorners firstCorner secondCorner thirdCorner fourthCorner isClockwise s;
         s = rotateFourCorners fifthCorner sixthCorner seventhCorner eighthCorner isClockwise s
     in if \<not> isY then
          (let s = rotate_corner firstCorner counterClockwise s;
               s = rotate_corner secondCorner clockwise s;
               s = rotate_corner thirdCorner counterClockwise s;
               s = rotate_corner fourthCorner clockwise s;
               s = rotate_corner fifthCorner clockwise s;
               s = rotate_corner sixthCorner counterClockwise s;
               s = rotate_corner seventhCorner clockwise s
           in rotate_corner eighthCorner counterClockwise s)
        else s)"

definition applyRotation ::
  "cornerPtr \<Rightarrow> cornerPtr \<Rightarrow> cornerPtr \<Rightarrow> cornerPtr \<Rightarrow> cornerPtr \<Rightarrow> cornerPtr \<Rightarrow> cornerPtr
    \<Rightarrow> cornerPtr \<Rightarrow> centerPtr \<Rightarrow> centerPtr \<Rightarrow> centerPtr \<Rightarrow> centerPtr \<Rightarrow> bool \<Rightarrow> bool \<Rightarrow> bool
    \<Rightarrow> Skewb \<Rightarrow> Skewb" where
  "applyRotation firstCorner secondCorner thirdCorner fourthCorner fifthCorner sixthCorner
      seventhCorner eighthCorner firstCenter secondCenter thirdCenter fourthCenter
      isClockwise isDouble isY s =
    (let s = rotationPass firstCorner secondCorner thirdCorner fourthCorner fifthCorner
               sixthCorner seventhCorner eighthCorner firstCenter secondCenter thirdCenter
               fourthCenter isClockwise isY s
     in if isDouble then
          rotationPass firstCorner secondCorner thirdCorner fourthCorner fifthCorner
            sixthCorner seventhCorner eighthCorner firstCenter secondCenter thirdCenter
            fourthCenter isClockwise isY s
        else s)"

text \<open>
  \<^verbatim>\<open>strings.Split(s, " ")\<close>: the pieces between the separators, one more than there
  are separators; the empty string gives one empty piece. The source only splits at
  the one-character separator \<^verbatim>\<open>" "\<close>.
\<close>

fun Split :: "string \<Rightarrow> char \<Rightarrow> string list" where
  "Split [] sep = [[]]"
| "Split (c # cs) sep =
    (if c = sep then [] # Split cs sep
     else (case Split cs sep of [] \<Rightarrow> [[c]] | t # ts \<Rightarrow> (c # t) # ts))"

definition space :: char where "space = CHR '' ''"

text \<open>
  The body of the loop of \<^verbatim>\<open>ApplyWCAMoves\<close> for one token: \<open>Inl\<close> is the
  \<^verbatim>\<open>return fmt.Errorf(...)\<close> of the first switch, \<open>Inr\<close> the state after the
  second switch.
\<close>

definition wcaMove :: "Move \<Rightarrow> Skewb \<Rightarrow> error + Skewb" where
  "wcaMove move s =
    (if move \<in> set [U, R, B, L, X, X2, Y, Y2, Z, Z2] \<or>
        move \<in> set [UPrime, RPrime, BPrime, LPrime, XPrime, YPrime, ZPrime]
     then
       (let isClockwise =
              (if move \<in> set [U, R, B, L, X, X2, Y, Y2, Z, Z2] then clockwise
               else counterClockwise)
        in Inr
          (if move \<in> set [U, UPrime] then
             applyMove Ref_ubl Ref_dlb Ref_urb Ref_ulf Ref_up Ref_left Ref_back isClockwise s
           else if move \<in> set [R, RPrime] then
             applyMove Ref_dbr Ref_drf Ref_urb Ref_dlb Ref_right Ref_back Ref_down isClockwise s
           else if move \<in> set [B, BPrime] then
             applyMove Ref_dlb Ref_dbr Ref_ubl Ref_dfl Ref_back Ref_left Ref_down isClockwise s
           else if move \<in> set [L, LPrime] then
             applyMove Ref_dfl Ref_dlb Ref_ulf Ref_drf Ref_front Ref_down Ref_left isClockwise s
           else if move \<in> set [X, XPrime, X2] then
             applyRotation Ref_ufr Ref_urb Ref_dbr Ref_drf Ref_ulf Ref_ubl Ref_dlb Ref_dfl
               Ref_front Ref_up Ref_back Ref_down isClockwise (move = X2) itsntY s
           else if move \<in> set [Y, YPrime, Y2] then
             applyRotation Ref_ufr Ref_ulf Ref_ubl Ref_urb Ref_drf Ref_dfl Ref_dlb Ref_dbr
               Ref_front Ref_left Ref_back Ref_right isClockwise (move = Y2) itsY s
           else if move \<in> set [Z, ZPrime, Z2] then
             applyRotation Ref_ulf Ref_ufr Ref_drf Ref_dfl Ref_ubl Ref_urb Ref_dbr Ref_dlb
               Ref_up Ref_right Ref_down Ref_left isClockwise (move = Z2) itsntY s
           else s))
     else Inl (Errorf move ErrWCAMove))"

fun wcaLoop :: "Move list \<Rightarrow> Skewb \<Rightarrow> error option \<times> Skewb" where
  "wcaLoop [] s = (None, s)"
| "wcaLoop (m # ms) s =
    (case wcaMove m s of Inl e \<Rightarrow> (Some e, s) | Inr s' \<Rightarrow> wcaLoop ms s')"

text \<open>
  \<^verbatim>\<open>func (s *Skewb) ApplyWCAMoves(wcaMoves string) error\<close>: the returned error and
  the state the receiver is left in.
\<close>

definition ApplyWCAMoves :: "string \<Rightarrow> Skewb \<Rightarrow> error option \<times> Skewb" where
  "ApplyWCAMoves wcaMoves s = wcaLoop (Split wcaMoves space) s"


definition rubiskewbMove :: "Move \<Rightarrow> Skewb \<Rightarrow> error + Skewb" where
  "rubiskewbMove move s =
    (if move \<in> set [R, LittleR, B, LittleB, L, LittleL, F, LittleF, X, X2, Y, Y2, Z, Z2] \<or>
        move \<in> set [RPrime, LittleRPrime, BPrime, LittleBPrime, LPrime, LittleLPrime, FPrime,
                     LittleFPrime, XPrime, YPrime, ZPrime]
     then
       (let isClockwise =
              (if move \<in> set [R, LittleR, B, LittleB, L, LittleL, F, LittleF, X, X2, Y, Y2, Z, Z2]
               then clockwise else counterClockwise)
        in Inr
          (if move \<in> set [R, RPrime] then
             applyMove Ref_urb Ref_ufr Ref_ubl Ref_dbr Ref_right Ref_up Ref_back isClockwise s
           else if move \<in> set [LittleR, LittleRPrime] then
             applyMove Ref_dbr Ref_drf Ref_urb Ref_dlb Ref_right Ref_back Ref_down isClockwise s
           else if move \<in> set [B, BPrime] then
             applyMove Ref_ubl Ref_dlb Ref_urb Ref_ulf Ref_up Ref_left Ref_back isClockwise s
           else if move \<in> set [LittleB, LittleBPrime] then
             applyMove Ref_dlb Ref_dbr Ref_ubl Ref_dfl Ref_back Ref_left Ref_down isClockwise s
           else if move \<in> set [L, LPrime] then
             applyMove Ref_ulf Ref_ubl Ref_ufr Ref_dfl Ref_up Ref_front Ref_left isClockwise s
           else if move \<in> set [LittleL, LittleLPrime] then
             applyMove Ref_dfl Ref_dlb Ref_ulf Ref_drf Ref_front Ref_down Ref_left isClockwise s
           else if move \<in> set [F, FPrime] then
             applyMove Ref_ufr Ref_ulf Ref_urb Ref_drf Ref_front Ref_up Ref_right isClockwise s
           else if move \<in> set [LittleF, LittleFPrime] then
             applyMove Ref_drf Ref_dfl Ref_ufr Ref_dbr Ref_front Ref_right Ref_down isClockwise s
           else if move \<in> set [X, XPrime, X2] then
             applyRotation Ref_ufr Ref_urb Ref_dbr Ref_drf Ref_ulf Ref_ubl Ref_dlb Ref_dfl
               Ref_front Ref_up Ref_back Ref_down isClockwise (move = X2) itsntY s
           else if move \<in> set [Y, YPrime, Y2] then
             applyRotation Ref_ufr Ref_ulf Ref_ubl Ref_urb Ref_drf Ref_dfl Ref_dlb Ref_dbr
               Ref_front Ref_left Ref_back Ref_right isClockwise (move = Y2) itsY s
           else if move \<in> set [Z, ZPrime, Z2] then
             applyRotation Ref_ulf Ref_ufr Ref_drf Ref_dfl Ref_ubl Ref_urb Ref_dbr Ref_dlb
               Ref_up Ref_right Ref_down Ref_left isClockwise (move = Z2) itsntY s
           else s))
     else Inl (Errorf move ErrWCAMove))"

fun rubiskewbLoop :: "Move list \<Rightarrow> Skewb \<Rightarrow> error option \<times> Skewb" where
  "rubiskewbLoop [] s = (None, s)"
| "rubiskewbLoop (m # ms) s =
    (case rubiskewbMove m s of Inl e \<Rightarrow> (Some e, s) | Inr s' \<Rightarrow> rubiskewbLoop ms s')"

definition ApplyRubiskewbMoves :: "string \<Rightarrow> Skewb \<Rightarrow> error option \<times> Skewb" where
  "ApplyRubiskewbMoves rubiskewbMoves s = rubiskewbLoop (Split rubiskewbMoves space) s"

section \<open>Reverse computer\<close>

text \<open>
  \<^verbatim>\<open>strings.Contains\<close> and \<^verbatim>\<open>strings.ReplaceAll\<close>, for the one-character
  patterns the source passes.
\<close>

definition Contains :: "string \<Rightarrow> char \<Rightarrow> bool" where
  "Contains s c = (c \<in> set s)"

definition ReplaceAll :: "string \<Rightarrow> char \<Rightarrow> string \<Rightarrow> string" where
  "ReplaceAll s old new = concat (map (\<lambda>c. if c = old then new else [c]) s)"

text \<open>The body of the loop of \<^verbatim>\<open>createReverse\<close>: the token as it is written to the result.\<close>

definition reverseMove :: "string \<Rightarrow> string" where
  "reverseMove move =
    (if Contains move prime then ReplaceAll move prime []
     else if \<not> Contains move CHR ''2'' then move @ [prime]
     else move)"

definition createReverse :: "string \<Rightarrow> string" where
  "createReverse moves =
    foldl (\<lambda>reverse move. Sprintf (reverseMove move) reverse) [] (Split moves space)"

section \<open>Equivalence checker\<close>

text \<open>The getters return a \<^verbatim>\<open>[3]string\<close>, a list of three strings here.\<close>

definition cornerArray :: "corner \<Rightarrow> string list" where
  "cornerArray c = [first (colors c), second (colors c), third (colors c)]"

definition GetUFRCornerColors :: "Skewb \<Rightarrow> string list" where
  "GetUFRCornerColors s = cornerArray (ufr s)"
definition GetURBCornerColors :: "Skewb \<Rightarrow> string list" where
  "GetURBCornerColors s = cornerArray (urb s)"
definition GetULFCornerColors :: "Skewb \<Rightarrow> string list" where
  "GetULFCornerColors s = cornerArray (ulf s)"
definition GetUBLCornerColors :: "Skewb \<Rightarrow> string list" where
  "GetUBLCornerColors s = cornerArray (ubl s)"
definition GetDRFCornerColors :: "Skewb \<Rightarrow> string list" where
  "GetDRFCornerColors s = cornerArray (drf s)"
definition GetDBRCornerColors :: "Skewb \<Rightarrow> string list" where
  "GetDBRCornerColors s = cornerArray (dbr s)"
definition GetDFLCornerColors :: "Skewb \<Rightarrow> string list" where
  "GetDFLCornerColors s = cornerArray (dfl s)"
definition GetDLBCornerColors :: "Skewb \<Rightarrow> string list" where
  "GetDLBCornerColors s = cornerArray (dlb s)"

definition GetUpCenterColor :: "Skewb \<Rightarrow> string" where
  "GetUpCenterColor s = color (up s)"
definition GetFrontCenterColor :: "Skewb \<Rightarrow> string" where
  "GetFrontCenterColor s = color (front s)"
definition GetRightCenterColor :: "Skewb \<Rightarrow> string" where
  "GetRightCenterColor s = color (right s)"
definition GetBackCenterColor :: "Skewb \<Rightarrow> string" where
  "GetBackCenterColor s = color (back s)"
definition GetLeftCenterColor :: "Skewb \<Rightarrow> string" where
  "GetLeftCenterColor s = color (left s)"
definition GetDownCenterColor :: "Skewb \<Rightarrow> string" where
  "GetDownCenterColor s = color (down s)"

definition equal_m :: "Skewb \<Rightarrow> Skewb \<Rightarrow> bool" where
  "equal_m s other =
    (if cornerArray (ufr s) \<noteq> GetUFRCornerColors other then notEqual
     else if cornerArray (urb s) \<noteq> GetURBCornerColors other then notEqual
     else if cornerArray (ulf s) \<noteq> GetULFCornerColors other then notEqual
     else if cornerArray (ubl s) \<noteq> GetUBLCornerColors other then notEqual
     else if cornerArray (drf s) \<noteq> GetDRFCornerColors other then notEqual
     else if cornerArray (dbr s) \<noteq> GetDBRCornerColors other then notEqual
     else if cornerArray (dfl s) \<noteq> GetDFLCornerColors other then notEqual
     else if cornerArray (dlb s) \<noteq> GetDLBCornerColors other then notEqual
     else if color (up s) \<noteq> GetUpCenterColor other then notEqual
     else if color (front s) \<noteq> GetFrontCenterColor other then notEqual
     else if color (right s) \<noteq> GetRightCenterColor other then notEqual
     else if color (back s) \<noteq> GetBackCenterColor other then notEqual
     else if color (left s) \<noteq> GetLeftCenterColor other then notEqual
     else if color (down s) \<noteq> GetDownCenterColor other then notEqual
     else equal_v)"

definition ExactEqual :: "Skewb \<Rightarrow> Skewb \<Rightarrow> bool" where
  "ExactEqual s other = equal_m s other"

text \<open>
  \<^verbatim>\<open>func (s *Skewb) CenterDown(color string) error\<close>: the first case of the switch
  that holds decides.
\<close>

definition CenterDown :: "string \<Rightarrow> Skewb \<Rightarrow> error option \<times> Skewb" where
  "CenterDown c s =
    (if color (up s) = c then ApplyWCAMoves X2 s
     else if color (front s) = c then ApplyWCAMoves XPrime s
     else if color (right s) = c then ApplyWCAMoves Z s
     else if color (back s) = c then ApplyWCAMoves X s
     else if color (left s) = c then ApplyWCAMoves ZPrime s
     else if color (down s) = c then (None, s)
     else (Some (Errorf c ErrColor), s))"

text \<open>
  \<^verbatim>\<open>func (s *Skewb) Equal(other Skewber) bool\<close>. The receiver is only read; the
  result is the returned boolean and the state \<^verbatim>\<open>other\<close> is left in. The errors
  that \<^verbatim>\<open>CenterDown\<close> and \<^verbatim>\<open>ApplyWCAMoves\<close> return are dropped by the source.
  The two states are distinct objects.
\<close>

fun EqualLoop :: "nat \<Rightarrow> Skewb \<Rightarrow> Skewb \<Rightarrow> bool \<times> Skewb" where
  "EqualLoop 0 s other = (notEqual, other)"
| "EqualLoop (Suc n) s other =
    (let other = snd (ApplyWCAMoves Y other) in
     if equal_m s other then (equal_v, other) else EqualLoop n s other)"

definition Equal :: "Skewb \<Rightarrow> Skewb \<Rightarrow> bool \<times> Skewb" where
  "Equal s other =
    (let other = snd (CenterDown (color (down s)) other) in
     if equal_m s other then (equal_v, other) else EqualLoop 3 s other)"

section \<open>Mirror checker\<close>

text \<open>
  A Go array or slice indexed out of range stops the program with a run-time panic;
  the functions that index with a computed position return \<open>Inl\<close> of it.
\<close>

datatype panic = IndexOutOfRange

fun indexFrom :: "nat \<Rightarrow> string list \<Rightarrow> string \<Rightarrow> int" where
  "indexFrom i [] element = - 1"
| "indexFrom i (v # vs) element = (if v = element then int i else indexFrom (Suc i) vs element)"

definition index :: "string list \<Rightarrow> string \<Rightarrow> int" where
  "index array element = indexFrom 0 array element"

text \<open>A \<^verbatim>\<open>[4][3]int\<close> is a list of four lists of three integers, zero at first.\<close>

type_synonym table = "int list list"

definition setCell :: "nat \<Rightarrow> nat \<Rightarrow> int \<Rightarrow> table \<Rightarrow> panic + table" where
  "setCell i j v t =
    (if i < length t \<and> j < length (t ! i) then Inr (t[i := (t ! i)[j := v]])
     else Inl IndexOutOfRange)"

text \<open>
  The loops of \<^verbatim>\<open>getLayerColor\<close>: \<open>c0\<close> is \<^verbatim>\<open>layerCorners[0]\<close>, the inner loop
  runs over the positions \<open>j\<close> of one corner, the outer one over the corners of
  \<^verbatim>\<open>layerCorners[1:]\<close> with their index \<open>i\<close>, writing row \<open>i + 1\<close>.
\<close>

fun cornerLoop :: "string list \<Rightarrow> nat \<Rightarrow> (nat \<times> string) list \<Rightarrow> table \<Rightarrow> panic + table" where
  "cornerLoop c0 i [] t = Inr t"
| "cornerLoop c0 i ((j, clr) # rest) t =
    (let v = (if c0 ! 0 = clr then t ! 0 ! 0
              else if c0 ! 1 = clr then t ! 0 ! 1
              else if c0 ! 2 = clr then t ! 0 ! 2
              else otherCornerColor)
     in case setCell (i + 1) j v t of
          Inl p \<Rightarrow> Inl p
        | Inr t' \<Rightarrow> cornerLoop c0 i rest t')"

fun layerLoop :: "string list \<Rightarrow> (nat \<times> string list) list \<Rightarrow> table \<Rightarrow> panic + table" where
  "layerLoop c0 [] t = Inr t"
| "layerLoop c0 ((i, crn) # rest) t =
    (case cornerLoop c0 i (enumerate 0 crn) t of
       Inl p \<Rightarrow> Inl p
     | Inr t' \<Rightarrow> layerLoop c0 rest t')"

definition getLayerColor :: "string list list \<Rightarrow> string \<Rightarrow> panic + table" where
  "getLayerColor layerCorners layerColor =
    (case layerCorners of
       [] \<Rightarrow> Inl IndexOutOfRange
     | c0 # others \<Rightarrow>
        (let layerColors = replicate 4 (replicate 3 0);
             layerColors =
               (if c0 ! 0 = layerColor then
                  layerColors[0 := [layerCornerColor, firstCornerColor, secondCornerColor]]
                else if c0 ! 1 = layerColor then
                  layerColors[0 := [firstCornerColor, layerCornerColor, secondCornerColor]]
                else if c0 ! 2 = layerColor then
                  layerColors[0 := [firstCornerColor, secondCornerColor, layerCornerColor]]
                else layerColors)
         in layerLoop c0 (enumerate 0 others) layerColors))"

definition cornerGetters :: "(Skewb \<Rightarrow> string list) list" where
  "cornerGetters =
    [GetUFRCornerColors, GetURBCornerColors, GetULFCornerColors, GetUBLCornerColors,
     GetDRFCornerColors, GetDBRCornerColors, GetDFLCornerColors, GetDLBCornerColors]"

text \<open>
  \<^verbatim>\<open>oneLayerMirror\<close>: the eight \<^verbatim>\<open>if\<close> statements, in the order of
  \<open>cornerGetters\<close>, append the corner of \<open>s\<close> and the corner of \<open>other\<close> at a slot
  where the corner of \<open>s\<close> holds the layer colour.
\<close>

definition oneLayerMirror :: "Skewb \<Rightarrow> Skewb \<Rightarrow> string \<Rightarrow> panic + bool" where
  "oneLayerMirror s other layerColor =
    (let sLayerCorners =
           concat (map (\<lambda>g. if index (g s) layerColor \<noteq> - 1 then [g s] else []) cornerGetters);
         otherLayerCorners =
           concat (map (\<lambda>g. if index (g s) layerColor \<noteq> - 1 then [g other] else []) cornerGetters)
     in case getLayerColor sLayerCorners layerColor of
          Inl p \<Rightarrow> Inl p
        | Inr sLayerColors \<Rightarrow>
           (case getLayerColor otherLayerCorners layerColor of
              Inl p \<Rightarrow> Inl p
            | Inr otherLayerColors \<Rightarrow>
                Inr (if sLayerColors = otherLayerColors then equal_v else notEqual)))"

text \<open>
  \<^verbatim>\<open>OneLayerMirror\<close> changes the receiver and \<^verbatim>\<open>other\<close>: the result is what the
  call does (a boolean, or the panic) and the two states it leaves.
\<close>

fun OneLayerMirrorLoop ::
  "string list \<Rightarrow> Skewb \<Rightarrow> Skewb \<Rightarrow> string \<Rightarrow> (panic + bool) \<times> Skewb \<times> Skewb" where
  "OneLayerMirrorLoop [] s other layerColor = (Inr notEqual, s, other)"
| "OneLayerMirrorLoop (rotation # rotations) s other layerColor =
    (let other = snd (ApplyWCAMoves rotation other) in
     case oneLayerMirror s other layerColor of
       Inl p \<Rightarrow> (Inl p, s, other)
     | Inr m \<Rightarrow>
        (let reverse = createReverse rotation;
             other = snd (ApplyWCAMoves reverse other)
         in if m then (Inr equal_v, s, other)
            else OneLayerMirrorLoop rotations s other layerColor))"

definition OneLayerMirror ::
  "Skewb \<Rightarrow> Skewb \<Rightarrow> string \<Rightarrow> (panic + bool) \<times> Skewb \<times> Skewb" where
  "OneLayerMirror s other layerColor =
    (let s = snd (CenterDown layerColor s);
         other = snd (CenterDown (color (down s)) other)
     in case oneLayerMirror s other layerColor of
          Inl p \<Rightarrow> (Inl p, s, other)
        | Inr m \<Rightarrow>
            if m then (Inr equal_v, s, other)
            else OneLayerMirrorLoop [Y, YPrime, Y2] s other layerColor)"

definition getCornerRelativeColors ::
  "string list \<Rightarrow> string \<Rightarrow> string \<Rightarrow> string \<Rightarrow> string \<Rightarrow> string \<Rightarrow> string \<Rightarrow> int list" where
  "getCornerRelativeColors cs upColor frontColor rightColor backColor leftColor downColor =
    map (\<lambda>i. if cs ! i = upColor then 0
             else if cs ! i = frontColor then 1
             else if cs ! i = rightColor then 2
             else if cs ! i = backColor then 3
             else if cs ! i = leftColor then 4
             else if cs ! i = downColor then 5
             else 0) [0, 1, 2]"

definition set2 :: "table \<Rightarrow> nat \<times> nat \<times> int \<Rightarrow> table" where
  "set2 t a = (case a of (i, j, v) \<Rightarrow> t[i := (t ! i)[j := v]])"

text \<open>\<^verbatim>\<open>getRelativeColors\<close>: the assignments to the \<^verbatim>\<open>[6][5]int\<close>, in the order of the source.\<close>

definition getRelativeColors :: "Skewb \<Rightarrow> table" where
  "getRelativeColors s =
    (let upColor = GetUpCenterColor s;
         frontColor = GetFrontCenterColor s;
         rightColor = GetRightCenterColor s;
         backColor = GetBackCenterColor s;
         leftColor = GetLeftCenterColor s;
         downColor = GetDownCenterColor s;
         rel = (\<lambda>cs. getCornerRelativeColors cs upColor frontColor rightColor backColor
                        leftColor downColor);
         ufrRelativeColors = rel (GetUFRCornerColors s);
         urbRelativeColors = rel (GetURBCornerColors s);
         ulfRelativeColors = rel (GetULFCornerColors s);
         ublRelativeColors = rel (GetUBLCornerColors s);
         drfRelativeColors = rel (GetDRFCornerColors s);
         dbrRelativeColors = rel (GetDBRCornerColors s);
         dflRelativeColors = rel (GetDFLCornerColors s);
         dlbRelativeColors = rel (GetDLBCornerColors s)
     in foldl set2 (replicate 6 (replicate 5 0))
          [(0, 0, 0), (1, 0, 1), (2, 0, 2), (3, 0, 3), (4, 0, 4), (5, 0, 5),
           (0, 1, ufrRelativeColors ! 0), (1, 1, ufrRelativeColors ! 1), (2, 1, ufrRelativeColors ! 2),
           (0, 2, urbRelativeColors ! 0), (2, 2, urbRelativeColors ! 1), (3, 1, urbRelativeColors ! 2),
           (0, 3, ulfRelativeColors ! 0), (4, 1, ulfRelativeColors ! 1), (1, 2, ulfRelativeColors ! 2),
           (0, 4, ublRelativeColors ! 0), (3, 2, ublRelativeColors ! 1), (4, 2, ublRelativeColors ! 2),
           (5, 1, drfRelativeColors ! 0), (2, 3, drfRelativeColors ! 1), (1, 3, drfRelativeColors ! 2),
           (5, 2, dbrRelativeColors ! 0), (3, 3, dbrRelativeColors ! 1), (2, 4, dbrRelativeColors ! 2),
           (5, 3, dflRelativeColors ! 0), (1, 4, dflRelativeColors ! 1), (4, 3, dflRelativeColors ! 2),
           (5, 4, dlbRelativeColors ! 0), (4, 4, dlbRelativeColors ! 1), (3, 4, dlbRelativeColors ! 2)])"

definition fullMirror :: "Skewb \<Rightarrow> Skewb \<Rightarrow> bool" where
  "fullMirror s other =
    (let sRelativeColors = getRelativeColors s;
         otherRelativeColors = getRelativeColors other
     in if sRelativeColors = otherRelativeColors then equal_v else notEqual)"

text \<open>The \<^verbatim>\<open>rotations\<close> slice of \<^verbatim>\<open>FullMirror\<close>.\<close>

definition fullMirrorRotations :: "string list" where
  "fullMirrorRotations =
    [X, XPrime, X2, Y, YPrime, Y2, Z, ZPrime, Z2,
     X @ '' '' @ Y, X @ '' '' @ YPrime, X @ '' '' @ Y2,
     X @ '' '' @ Z, X @ '' '' @ ZPrime, X @ '' '' @ Z2,
     XPrime @ '' '' @ Y, XPrime @ '' '' @ YPrime, XPrime @ '' '' @ Z, XPrime @ '' '' @ ZPrime,
     X2 @ '' '' @ Y, X2 @ '' '' @ YPrime, X2 @ '' '' @ Z, X2 @ '' '' @ ZPrime]"

fun FullMirrorLoop :: "string list \<Rightarrow> Skewb \<Rightarrow> Skewb \<Rightarrow> bool \<times> Skewb" where
  "FullMirrorLoop [] s other = (notEqual, other)"
| "FullMirrorLoop (rotation # rotations) s other =
    (let other = snd (ApplyWCAMoves rotation other);
         m = fullMirror s other;
         reverse = createReverse rotation;
         other = snd (ApplyWCAMoves reverse other)
     in if m then (equal_v, other) else FullMirrorLoop rotations s other)"

definition FullMirror :: "Skewb \<Rightarrow> Skewb \<Rightarrow> bool \<times> Skewb" where
  "FullMirror s other =
    (if fullMirror s other then (equal_v, other)
     else FullMirrorLoop fullMirrorRotations s other)"

section \<open>Vocabularies and example states\<close>

text \<open>
  The tokens the two switches of \<^verbatim>\<open>ApplyWCAMoves\<close> and of
  \<^verbatim>\<open>ApplyRubiskewbMoves\<close> accept, and the sequences made of them only.
\<close>

definition wcaVocabulary :: "Move list" where
  "wcaVocabulary =
    [U, UPrime, R, RPrime, B, BPrime, L, LPrime, X, XPrime, X2, Y, YPrime, Y2, Z, ZPrime, Z2]"

definition rubiskewbVocabulary :: "Move list" where
  "rubiskewbVocabulary =
    [R, RPrime, LittleR, LittleRPrime, B, BPrime, LittleB, LittleBPrime, L, LPrime, LittleL,
     LittleLPrime, F, FPrime, LittleF, LittleFPrime, X, XPrime, X2, Y, YPrime, Y2, Z, ZPrime, Z2]"

definition validWCA :: "string \<Rightarrow> bool" where
  "validWCA m = (set (Split m space) \<subseteq> set wcaVocabulary)"

definition validRubiskewb :: "string \<Rightarrow> bool" where
  "validRubiskewb m = (set (Split m space) \<subseteq> set rubiskewbVocabulary)"

text \<open>The six centers of a state, in the order up, front, right, back, left, down.\<close>

definition centerColors :: "Skewb \<Rightarrow> string list" where
  "centerColors s =
    [color (up s), color (front s), color (right s), color (back s), color (left s),
     color (down s)]"

text \<open>An error message lists a token when it holds the token between double quotes.\<close>

fun occursIn :: "string \<Rightarrow> string \<Rightarrow> bool" where
  "occursIn q [] = (q = [])"
| "occursIn q (c # cs) = (take (length q) (c # cs) = q \<or> occursIn q cs)"

definition lists :: "error \<Rightarrow> Move \<Rightarrow> bool" where
  "lists e t = occursIn ([CHR 0x22] @ t @ [CHR 0x22]) e"

text \<open>A solved state and states reached from it, the inputs of the examples below.\<close>

definition solved :: Skewb where
  "solved = New ''white'' ''green'' ''red'' ''blue'' ''orange'' ''yellow''"

definition solvedY :: Skewb where
  "solvedY = snd (ApplyWCAMoves Y solved)"

definition solvedR :: Skewb where
  "solvedR = snd (ApplyWCAMoves R solved)"

definition solvedRY :: Skewb where
  "solvedRY = snd (ApplyWCAMoves Y solvedR)"

definition pinkDown :: Skewb where
  "pinkDown = New ''white'' ''green'' ''red'' ''blue'' ''orange'' ''pink''"

section \<open>Basic facts\<close>

lemmas Move_defs =
  prime_def U_def UPrime_def R_def RPrime_def LittleR_def LittleRPrime_def B_def BPrime_def
  LittleB_def LittleBPrime_def L_def LPrime_def LittleL_def LittleLPrime_def F_def FPrime_def
  LittleF_def LittleFPrime_def X_def XPrime_def X2_def Y_def YPrime_def Y2_def Z_def
  ZPrime_def Z2_def

lemmas flag_defs =
  clockwise_def itsY_def equal_v_def counterClockwise_def itsntY_def notEqual_def

lemmas getter_defs =
  cornerArray_def GetUFRCornerColors_def GetURBCornerColors_def GetULFCornerColors_def
  GetUBLCornerColors_def GetDRFCornerColors_def GetDBRCornerColors_def GetDFLCornerColors_def
  GetDLBCornerColors_def GetUpCenterColor_def GetFrontCenterColor_def GetRightCenterColor_def
  GetBackCenterColor_def GetLeftCenterColor_def GetDownCenterColor_def

lemmas prim_defs =
  applyMove_def applyRotation_def rotationPass_def rotateFourCenters_def rotateFourCorners_def
  rotateThreeCenters_def rotateThreeCorners_def rotate_corner_def setColors_def setColor_def
  flag_defs Let_def

lemma cornerArray_eq: "cornerArray c = cornerArray d \<longleftrightarrow> c = d"
  by (cases c, cases d, cases "colors c", cases "colors d") (auto simp: cornerArray_def)

lemma equal_m_iff: "equal_m s other \<longleftrightarrow> s = other"
  unfolding equal_m_def GetUFRCornerColors_def GetURBCornerColors_def GetULFCornerColors_def
    GetUBLCornerColors_def GetDRFCornerColors_def GetDBRCornerColors_def GetDFLCornerColors_def
    GetDLBCornerColors_def GetUpCenterColor_def GetFrontCenterColor_def GetRightCenterColor_def
    GetBackCenterColor_def GetLeftCenterColor_def GetDownCenterColor_def flag_defs cornerArray_eq
  by (cases s, cases other) auto

lemma ExactEqual_iff: "ExactEqual s other \<longleftrightarrow> s = other"
  by (simp add: ExactEqual_def equal_m_iff)

subsection \<open>Every token is undone by its reverse\<close>

lemma wcaMove_reverse:
  assumes "t \<in> set wcaVocabulary"
  shows "\<exists>s'. wcaMove t s = Inr s' \<and> wcaMove (reverseMove t) s' = Inr s"
  using assms unfolding wcaVocabulary_def
  apply (simp only: set_simps insert_iff empty_iff)
  apply (elim disjE FalseE)
  apply (simp_all add: wcaMove_def reverseMove_def Contains_def ReplaceAll_def Move_defs)
  apply (simp_all add: prim_defs)
  done

lemma rubiskewbMove_reverse:
  assumes "t \<in> set rubiskewbVocabulary"
  shows "\<exists>s'. rubiskewbMove t s = Inr s' \<and> rubiskewbMove (reverseMove t) s' = Inr s"
  using assms unfolding rubiskewbVocabulary_def
  apply (simp only: set_simps insert_iff empty_iff)
  apply (elim disjE FalseE)
  apply (simp_all add: rubiskewbMove_def reverseMove_def Contains_def ReplaceAll_def Move_defs)
  apply (simp_all add: prim_defs)
  done

lemma wcaLoop_reverse:
  "set ts \<subseteq> set wcaVocabulary \<Longrightarrow>
    fst (wcaLoop ts s) = None \<and>
    wcaLoop (map reverseMove (rev ts) @ us) (snd (wcaLoop ts s)) = wcaLoop us s"
proof (induction ts arbitrary: s us)
  case Nil
  then show ?case by simp
next
  case (Cons t ts)
  from Cons.prems obtain s' where
    s': "wcaMove t s = Inr s'" "wcaMove (reverseMove t) s' = Inr s"
    using wcaMove_reverse [of t s] by auto
  from Cons.prems have sub: "set ts \<subseteq> set wcaVocabulary" by simp
  from Cons.IH [OF sub, of s' "reverseMove t # us"] s' show ?case by simp
qed

lemma rubiskewbLoop_reverse:
  "set ts \<subseteq> set rubiskewbVocabulary \<Longrightarrow>
    fst (rubiskewbLoop ts s) = None \<and>
    rubiskewbLoop (map reverseMove (rev ts) @ us) (snd (rubiskewbLoop ts s)) = rubiskewbLoop us s"
proof (induction ts arbitrary: s us)
  case Nil
  then show ?case by simp
next
  case (Cons t ts)
  from Cons.prems obtain s' where
    s': "rubiskewbMove t s = Inr s'" "rubiskewbMove (reverseMove t) s' = Inr s"
    using rubiskewbMove_reverse [of t s] by auto
  from Cons.prems have sub: "set ts \<subseteq> set rubiskewbVocabulary" by simp
  from Cons.IH [OF sub, of s' "reverseMove t # us"] s' show ?case by simp
qed

subsection \<open>The string the reverse computer builds\<close>

lemma Split_not_Nil: "Split m sep \<noteq> []"
  by (induction m) (auto split: list.splits)

lemma Split_no_sep: "t \<in> set (Split m sep) \<Longrightarrow> sep \<notin> set t"
  by (induction m arbitrary: t) (auto split: list.splits if_splits)

lemma Split_token: "sep \<notin> set t \<Longrightarrow> Split (t @ sep # rest) sep = t # Split rest sep"
  by (induction t) (auto split: list.splits)

lemma Split_single: "sep \<notin> set t \<Longrightarrow> Split t sep = [t]"
  by (induction t) (auto split: list.splits)

lemma Split_joined:
  "\<forall>t \<in> set ts. sep \<notin> set (f t) \<Longrightarrow>
    Split (concat (map (\<lambda>t. f t @ [sep]) ts) @ rest) sep = map f ts @ Split rest sep"
  by (induction ts) (auto simp: Split_token)

lemma reverse_fold:
  "foldl (\<lambda>reverse move. Sprintf (f move) reverse) acc ts =
     concat (map (\<lambda>t. f t @ [space]) (rev ts)) @ acc"
  by (induction ts arbitrary: acc) (auto simp: Sprintf_def space_def)

lemma createReverse_concat:
  "createReverse m = concat (map (\<lambda>t. reverseMove t @ [space]) (rev (Split m space)))"
  by (simp add: createReverse_def reverse_fold)

lemma reverseMove_no_space: "space \<notin> set t \<Longrightarrow> space \<notin> set (reverseMove t)"
  by (auto simp: reverseMove_def ReplaceAll_def Contains_def space_def prime_def split: if_splits)

lemma reversed_no_space:
  "\<forall>t \<in> set (rev (Split m space)). space \<notin> set (reverseMove t)"
  using Split_no_sep [of _ m space] reverseMove_no_space by auto

lemma Split_createReverse:
  "Split (createReverse m) space = map reverseMove (rev (Split m space)) @ [[]]"
  using Split_joined [OF reversed_no_space, of m "[]"]
  by (simp add: createReverse_concat)

lemma createReverse_last: "createReverse m \<noteq> [] \<and> last (createReverse m) = space"
proof -
  obtain us u where "rev (Split m space) = us @ [u]"
    using Split_not_Nil [of m space] by (metis rev_is_Nil_conv rev_exhaust)
  then show ?thesis by (simp add: createReverse_concat)
qed

lemma Split_butlast_createReverse:
  "Split (butlast (createReverse m)) space = map reverseMove (rev (Split m space))"
proof -
  obtain us u where r: "rev (Split m space) = us @ [u]"
    using Split_not_Nil [of m space] by (metis rev_is_Nil_conv rev_exhaust)
  note ns = reversed_no_space [of m]
  have b: "butlast (createReverse m) =
      concat (map (\<lambda>t. reverseMove t @ [space]) us) @ reverseMove u"
    by (simp add: createReverse_concat r butlast_append)
  have "\<forall>t \<in> set us. space \<notin> set (reverseMove t)" using ns r by auto
  moreover have "space \<notin> set (reverseMove u)" using ns r by auto
  ultimately show ?thesis
    unfolding b r by (simp add: Split_joined Split_single)
qed

lemma wcaMove_empty: "wcaMove [] s = Inl (Errorf [] ErrWCAMove)"
  by (simp add: wcaMove_def Move_defs)

lemma rubiskewbMove_empty: "rubiskewbMove [] s = Inl (Errorf [] ErrWCAMove)"
  by (simp add: rubiskewbMove_def Move_defs)

lemma wcaLoop_trailing_empty: "fst (wcaLoop (ts @ [[]]) s) \<noteq> None"
  by (induction ts arbitrary: s) (auto simp: wcaMove_empty split: sum.splits)

lemma wca_reverse_state:
  "validWCA m \<Longrightarrow> snd (ApplyWCAMoves (createReverse m) (snd (ApplyWCAMoves m s))) = s"
  using wcaLoop_reverse [of "Split m space" s "[[]]"]
  by (simp add: validWCA_def ApplyWCAMoves_def Split_createReverse wcaMove_empty)

lemma rubiskewb_reverse_state:
  "validRubiskewb m \<Longrightarrow>
    snd (ApplyRubiskewbMoves (createReverse m) (snd (ApplyRubiskewbMoves m s))) = s"
  using rubiskewbLoop_reverse [of "Split m space" s "[[]]"]
  by (simp add: validRubiskewb_def ApplyRubiskewbMoves_def Split_createReverse
      rubiskewbMove_empty)

subsection \<open>Single tokens and \<open>CenterDown\<close>\<close>

lemma wcaMove_tokens:
  "wcaMove U s = Inr (applyMove Ref_ubl Ref_dlb Ref_urb Ref_ulf Ref_up Ref_left Ref_back True s)"
  "wcaMove UPrime s = Inr (applyMove Ref_ubl Ref_dlb Ref_urb Ref_ulf Ref_up Ref_left Ref_back False s)"
  "wcaMove R s = Inr (applyMove Ref_dbr Ref_drf Ref_urb Ref_dlb Ref_right Ref_back Ref_down True s)"
  "wcaMove RPrime s = Inr (applyMove Ref_dbr Ref_drf Ref_urb Ref_dlb Ref_right Ref_back Ref_down False s)"
  "wcaMove B s = Inr (applyMove Ref_dlb Ref_dbr Ref_ubl Ref_dfl Ref_back Ref_left Ref_down True s)"
  "wcaMove BPrime s = Inr (applyMove Ref_dlb Ref_dbr Ref_ubl Ref_dfl Ref_back Ref_left Ref_down False s)"
  "wcaMove L s = Inr (applyMove Ref_dfl Ref_dlb Ref_ulf Ref_drf Ref_front Ref_down Ref_left True s)"
  "wcaMove LPrime s = Inr (applyMove Ref_dfl Ref_dlb Ref_ulf Ref_drf Ref_front Ref_down Ref_left False s)"
  "wcaMove X s = Inr (applyRotation Ref_ufr Ref_urb Ref_dbr Ref_drf Ref_ulf Ref_ubl Ref_dlb Ref_dfl
      Ref_front Ref_up Ref_back Ref_down True False False s)"
  "wcaMove XPrime s = Inr (applyRotation Ref_ufr Ref_urb Ref_dbr Ref_drf Ref_ulf Ref_ubl Ref_dlb Ref_dfl
      Ref_front Ref_up Ref_back Ref_down False False False s)"
  "wcaMove X2 s = Inr (applyRotation Ref_ufr Ref_urb Ref_dbr Ref_drf Ref_ulf Ref_ubl Ref_dlb Ref_dfl
      Ref_front Ref_up Ref_back Ref_down True True False s)"
  "wcaMove Y s = Inr (applyRotation Ref_ufr Ref_ulf Ref_ubl Ref_urb Ref_drf Ref_dfl Ref_dlb Ref_dbr
      Ref_front Ref_left Ref_back Ref_right True False True s)"
  "wcaMove YPrime s = Inr (applyRotation Ref_ufr Ref_ulf Ref_ubl Ref_urb Ref_drf Ref_dfl Ref_dlb Ref_dbr
      Ref_front Ref_left Ref_back Ref_right False False True s)"
  "wcaMove Y2 s = Inr (applyRotation Ref_ufr Ref_ulf Ref_ubl Ref_urb Ref_drf Ref_dfl Ref_dlb Ref_dbr
      Ref_front Ref_left Ref_back Ref_right True True True s)"
  "wcaMove Z s = Inr (applyRotation Ref_ulf Ref_ufr Ref_drf Ref_dfl Ref_ubl Ref_urb Ref_dbr Ref_dlb
      Ref_up Ref_right Ref_down Ref_left True False False s)"
  "wcaMove ZPrime s = Inr (applyRotation Ref_ulf Ref_ufr Ref_drf Ref_dfl Ref_ubl Ref_urb Ref_dbr Ref_dlb
      Ref_up Ref_right Ref_down Ref_left False False False s)"
  "wcaMove Z2 s = Inr (applyRotation Ref_ulf Ref_ufr Ref_drf Ref_dfl Ref_ubl Ref_urb Ref_dbr Ref_dlb
      Ref_up Ref_right Ref_down Ref_left True True False s)"
  by (simp_all add: wcaMove_def Move_defs flag_defs)

lemma ApplyWCAMoves_single:
  "space \<notin> set t \<Longrightarrow>
    ApplyWCAMoves t s = (case wcaMove t s of Inl e \<Rightarrow> (Some e, s) | Inr s' \<Rightarrow> (None, s'))"
  by (simp add: ApplyWCAMoves_def Split_single split: sum.splits)

lemma token_no_space:
  "space \<notin> set X" "space \<notin> set XPrime" "space \<notin> set X2" "space \<notin> set Y" "space \<notin> set YPrime"
  "space \<notin> set Y2" "space \<notin> set Z" "space \<notin> set ZPrime" "space \<notin> set Z2" "space \<notin> set R"
  by (simp_all add: Move_defs space_def)

lemmas ApplyWCAMoves_token = token_no_space [THEN ApplyWCAMoves_single]

lemma down_after_rotation:
  "color (down (applyRotation Ref_ufr Ref_urb Ref_dbr Ref_drf Ref_ulf Ref_ubl Ref_dlb Ref_dfl
      Ref_front Ref_up Ref_back Ref_down True True False s)) = color (up s)"
  "color (down (applyRotation Ref_ufr Ref_urb Ref_dbr Ref_drf Ref_ulf Ref_ubl Ref_dlb Ref_dfl
      Ref_front Ref_up Ref_back Ref_down False False False s)) = color (front s)"
  "color (down (applyRotation Ref_ulf Ref_ufr Ref_drf Ref_dfl Ref_ubl Ref_urb Ref_dbr Ref_dlb
      Ref_up Ref_right Ref_down Ref_left True False False s)) = color (right s)"
  "color (down (applyRotation Ref_ufr Ref_urb Ref_dbr Ref_drf Ref_ulf Ref_ubl Ref_dlb Ref_dfl
      Ref_front Ref_up Ref_back Ref_down True False False s)) = color (back s)"
  "color (down (applyRotation Ref_ulf Ref_ufr Ref_drf Ref_dfl Ref_ubl Ref_urb Ref_dbr Ref_dlb
      Ref_up Ref_right Ref_down Ref_left False False False s)) = color (left s)"
  "color (down (applyRotation Ref_ufr Ref_ulf Ref_ubl Ref_urb Ref_drf Ref_dfl Ref_dlb Ref_dbr
      Ref_front Ref_left Ref_back Ref_right True False True s)) = color (down s)"
  by (simp_all add: prim_defs)

lemma CenterDown_cases:
  "CenterDown c s =
    (if color (up s) = c then (None, applyRotation Ref_ufr Ref_urb Ref_dbr Ref_drf Ref_ulf Ref_ubl Ref_dlb Ref_dfl
        Ref_front Ref_up Ref_back Ref_down True True False s)
     else if color (front s) = c then (None, applyRotation Ref_ufr Ref_urb Ref_dbr Ref_drf Ref_ulf Ref_ubl Ref_dlb Ref_dfl
        Ref_front Ref_up Ref_back Ref_down False False False s)
     else if color (right s) = c then (None, applyRotation Ref_ulf Ref_ufr Ref_drf Ref_dfl Ref_ubl Ref_urb Ref_dbr Ref_dlb
        Ref_up Ref_right Ref_down Ref_left True False False s)
     else if color (back s) = c then (None, applyRotation Ref_ufr Ref_urb Ref_dbr Ref_drf Ref_ulf Ref_ubl Ref_dlb Ref_dfl
        Ref_front Ref_up Ref_back Ref_down True False False s)
     else if color (left s) = c then (None, applyRotation Ref_ulf Ref_ufr Ref_drf Ref_dfl Ref_ubl Ref_urb Ref_dbr Ref_dlb
        Ref_up Ref_right Ref_down Ref_left False False False s)
     else if color (down s) = c then (None, s)
     else (Some (Errorf c ErrColor), s))"
  by (simp add: CenterDown_def ApplyWCAMoves_token wcaMove_tokens)

lemma CenterDown_found:
  "c \<in> set (centerColors s) \<Longrightarrow> fst (CenterDown c s) = None \<and> color (down (snd (CenterDown c s))) = c"
  by (auto simp: CenterDown_cases centerColors_def down_after_rotation)

lemma CenterDown_missing:
  "c \<notin> set (centerColors s) \<Longrightarrow> CenterDown c s = (Some (Errorf c ErrColor), s)"
  by (auto simp: CenterDown_cases centerColors_def)

lemma reverseMove_wca: "t \<in> set wcaVocabulary \<Longrightarrow> reverseMove t \<in> set wcaVocabulary"
  unfolding wcaVocabulary_def
  apply (simp only: set_simps insert_iff empty_iff)
  apply (elim disjE FalseE)
  apply (simp_all add: reverseMove_def Contains_def ReplaceAll_def Move_defs)
  done

lemma wcaLoop_append:
  "fst (wcaLoop ts s) = None \<Longrightarrow> wcaLoop (ts @ us) s = wcaLoop us (snd (wcaLoop ts s))"
  by (induction ts arbitrary: s) (auto split: sum.splits)

lemma wcaLoop_reversed:
  assumes "validWCA m"
  shows "fst (wcaLoop (map reverseMove (rev (Split m space))) s) = None"
proof -
  have "set (map reverseMove (rev (Split m space))) \<subseteq> set wcaVocabulary"
    using assms reverseMove_wca by (auto simp: validWCA_def)
  from wcaLoop_reverse [OF this, of s "[]"] show ?thesis by simp
qed

subsection \<open>The trial loops of the checkers\<close>

lemma rotations_valid: "\<forall>r \<in> set fullMirrorRotations. validWCA r"
  by (simp add: fullMirrorRotations_def validWCA_def wcaVocabulary_def Move_defs space_def)

lemma FullMirrorLoop_char:
  "\<forall>r \<in> set rs. validWCA r \<Longrightarrow>
    FullMirrorLoop rs s other =
      (\<exists>r \<in> set rs. fullMirror s (snd (ApplyWCAMoves r other)), other)"
  by (induction rs) (auto simp: wca_reverse_state flag_defs Let_def)

lemma spins_valid: "\<forall>r \<in> set [Y, YPrime, Y2]. validWCA r"
  by (simp add: validWCA_def wcaVocabulary_def Move_defs space_def)

lemma OneLayerMirrorLoop_char:
  "\<forall>r \<in> set rs. validWCA r \<Longrightarrow> fst (OneLayerMirrorLoop rs s other lc) = Inr res \<Longrightarrow>
    snd (OneLayerMirrorLoop rs s other lc) = (s, other) \<and>
    res = (\<exists>r \<in> set rs. oneLayerMirror s (snd (ApplyWCAMoves r other)) lc = Inr True)"
proof (induction rs)
  case Nil
  then show ?case by (simp add: flag_defs)
next
  case (Cons r rs)
  from Cons.prems(1) have v: "validWCA r" and vs: "\<forall>r \<in> set rs. validWCA r" by simp_all
  note undo = wca_reverse_state [OF v, of other]
  show ?case
  proof (cases "oneLayerMirror s (snd (ApplyWCAMoves r other)) lc")
    case (Inl p)
    with Cons.prems(2) show ?thesis by (simp add: Let_def)
  next
    case (Inr m)
    show ?thesis
    proof (cases m)
      case True
      with Inr Cons.prems(2) undo show ?thesis by (auto simp: Let_def flag_defs)
    next
      case False
      with Inr Cons.prems(2) undo have
        "fst (OneLayerMirrorLoop rs s other lc) = Inr res" by (simp add: Let_def)
      from Cons.IH [OF vs this] Inr False undo show ?thesis by (simp add: Let_def)
    qed
  qed
qed

lemma down_Y: "color (down (snd (ApplyWCAMoves Y s))) = color (down s)"
  by (simp add: ApplyWCAMoves_token wcaMove_tokens down_after_rotation)

lemma yyy: "ApplyWCAMoves ''y y y'' s =
   (None, snd (ApplyWCAMoves Y (snd (ApplyWCAMoves Y (snd (ApplyWCAMoves Y s))))))"
proof -
  have "ApplyWCAMoves ''y y y'' s = wcaLoop [Y, Y, Y] s"
    by (simp add: ApplyWCAMoves_def space_def Y_def)
  then show ?thesis
    by (simp add: ApplyWCAMoves_token wcaMove_tokens)
qed

lemma equal_m_down: "color (down s) \<noteq> color (down other) \<Longrightarrow> \<not> equal_m s other"
  by (auto simp: equal_m_iff)

section \<open>The claims\<close>

text \<open>
  C1. Inverse law: for every state \<open>s\<close> and every sequence \<open>m\<close> of tokens of the
  active notation, applying \<open>m\<close> succeeds, and applying the output of
  \<open>createReverse m\<close> afterwards leaves a state that is \<open>ExactEqual\<close> to \<open>s\<close>; this
  for the WCA notation with \<open>ApplyWCAMoves\<close> and for the Rubiskewb notation with
  \<open>ApplyRubiskewbMoves\<close>.
\<close>

theorem inverse_law:
  "(validWCA m \<longrightarrow>
      fst (ApplyWCAMoves m s) = None \<and>
      ExactEqual s (snd (ApplyWCAMoves (createReverse m) (snd (ApplyWCAMoves m s))))) \<and>
   (validRubiskewb m \<longrightarrow>
      fst (ApplyRubiskewbMoves m s) = None \<and>
      ExactEqual s
        (snd (ApplyRubiskewbMoves (createReverse m) (snd (ApplyRubiskewbMoves m s)))))"
proof (intro conjI impI)
  assume v: "validWCA m"
  then show "fst (ApplyWCAMoves m s) = None"
    using wcaLoop_reverse [of "Split m space" s "[]"]
    by (simp add: validWCA_def ApplyWCAMoves_def)
  from v show
    "ExactEqual s (snd (ApplyWCAMoves (createReverse m) (snd (ApplyWCAMoves m s))))"
    by (simp add: ExactEqual_iff wca_reverse_state)
next
  assume v: "validRubiskewb m"
  then show "fst (ApplyRubiskewbMoves m s) = None"
    using rubiskewbLoop_reverse [of "Split m space" s "[]"]
    by (simp add: validRubiskewb_def ApplyRubiskewbMoves_def)
  from v show
    "ExactEqual s
      (snd (ApplyRubiskewbMoves (createReverse m) (snd (ApplyRubiskewbMoves m s))))"
    by (simp add: ExactEqual_iff rubiskewb_reverse_state)
qed

theorem inverse_law_witness:
  "validWCA (''R B'' @ [prime] @ '' x2'') \<and> validRubiskewb (''R B'' @ [prime] @ '' x2'') \<and>
   fst (ApplyWCAMoves (''R B'' @ [prime] @ '' x2'') solved) = None \<and>
   ExactEqual solved
     (snd (ApplyWCAMoves (createReverse (''R B'' @ [prime] @ '' x2''))
        (snd (ApplyWCAMoves (''R B'' @ [prime] @ '' x2'') solved)))) \<and>
   fst (ApplyRubiskewbMoves (''R B'' @ [prime] @ '' x2'') solved) = None \<and>
   ExactEqual solved
     (snd (ApplyRubiskewbMoves (createReverse (''R B'' @ [prime] @ '' x2''))
        (snd (ApplyRubiskewbMoves (''R B'' @ [prime] @ '' x2'') solved))))"
proof -
  have v: "validWCA (''R B'' @ [prime] @ '' x2'')"
    by (simp add: validWCA_def wcaVocabulary_def Move_defs space_def)
  have w: "validRubiskewb (''R B'' @ [prime] @ '' x2'')"
    by (simp add: validRubiskewb_def rubiskewbVocabulary_def Move_defs space_def)
  from inverse_law [of "''R B'' @ [prime] @ '' x2''" solved] v w show ?thesis
    by (intro conjI) (rule v, rule w, simp_all only:)
qed

text \<open>
  C3. Partial application: \<open>ApplyWCAMoves\<close> on \<^verbatim>\<open>"R Q"\<close> returns the unsupported-move
  error that names \<^verbatim>\<open>Q\<close> and leaves the state that \<^verbatim>\<open>"R"\<close> alone leaves; whatever
  follows \<^verbatim>\<open>Q\<close> is not processed.
\<close>

theorem partial_application:
  "ApplyWCAMoves ''R Q'' s = (Some (Errorf ''Q'' ErrWCAMove), snd (ApplyWCAMoves ''R'' s)) \<and>
   fst (ApplyWCAMoves ''R'' s) = None \<and>
   ExactEqual (snd (ApplyWCAMoves ''R Q'' s)) (snd (ApplyWCAMoves ''R'' s)) \<and>
   ApplyWCAMoves (''R Q '' @ rest) s = ApplyWCAMoves ''R Q'' s"
  by (simp add: ApplyWCAMoves_def wcaMove_def Move_defs space_def ExactEqual_iff
      split: list.splits)

text \<open>
  C10. The string \<open>createReverse\<close> returns always ends with the separator, so
  \<open>ApplyWCAMoves\<close> on it always returns an error. For a sequence \<open>m\<close> of WCA tokens
  the error is the one for the empty token after the last separator, and the state
  left is the one that the same string without its last separator leaves, without
  error: every reversed token has been applied.
\<close>

theorem reverse_trailing_separator:
  "last (createReverse m) = space \<and>
   fst (ApplyWCAMoves (createReverse m) s) \<noteq> None \<and>
   (validWCA m \<longrightarrow>
      fst (ApplyWCAMoves (createReverse m) s) = Some (Errorf [] ErrWCAMove) \<and>
      ApplyWCAMoves (butlast (createReverse m)) s =
        (None, snd (ApplyWCAMoves (createReverse m) s)))"
proof (intro conjI impI)
  show "last (createReverse m) = space" by (simp add: createReverse_last)
  show "fst (ApplyWCAMoves (createReverse m) s) \<noteq> None"
    by (simp add: ApplyWCAMoves_def Split_createReverse wcaLoop_trailing_empty)
next
  assume v: "validWCA m"
  note n = wcaLoop_reversed [OF v, of s]
  show "fst (ApplyWCAMoves (createReverse m) s) = Some (Errorf [] ErrWCAMove)"
    by (simp add: ApplyWCAMoves_def Split_createReverse wcaLoop_append [OF n] wcaMove_empty)
  show "ApplyWCAMoves (butlast (createReverse m)) s =
        (None, snd (ApplyWCAMoves (createReverse m) s))"
    using n
    by (simp add: ApplyWCAMoves_def Split_createReverse Split_butlast_createReverse
        wcaLoop_append [OF n] wcaMove_empty prod_eq_iff)
qed

theorem reverse_trailing_separator_witness:
  "validWCA ''y'' \<and> createReverse ''y'' = ''y'' @ [prime] @ '' '' \<and>
   ApplyWCAMoves (createReverse ''y'') solvedY = (Some (Errorf [] ErrWCAMove), solved) \<and>
   ApplyWCAMoves (butlast (createReverse ''y'')) solvedY = (None, solved)"
proof -
  have v: "validWCA ''y''"
    by (simp add: validWCA_def wcaVocabulary_def Move_defs space_def)
  have c: "createReverse ''y'' = ''y'' @ [prime] @ '' ''"
    by (simp add: createReverse_def reverseMove_def Contains_def Sprintf_def space_def prime_def)
  have y: "''y'' = Y" by (simp add: Y_def)
  have s: "snd (ApplyWCAMoves (createReverse ''y'') solvedY) = solved"
    unfolding solvedY_def y by (rule wca_reverse_state) (simp add: v [unfolded y])
  from reverse_trailing_separator [of "''y''" solvedY] v c s show ?thesis
    by (simp add: prod_eq_iff space_def)
qed

text \<open>
  C8. \<open>CenterDown c\<close>: when a center holds \<open>c\<close> the call returns no error and
  leaves \<open>c\<close> on the down center, the state being unchanged or the one a single
  rotation among \<^verbatim>\<open>x2\<close>, \<^verbatim>\<open>x'\<close>, \<^verbatim>\<open>z\<close>, \<^verbatim>\<open>x\<close>, \<^verbatim>\<open>z'\<close> leaves; when no center
  holds \<open>c\<close> it returns the color-not-found error and the state is unchanged.
\<close>

theorem CenterDown_correct:
  "(c \<in> set (centerColors s) \<longrightarrow>
      fst (CenterDown c s) = None \<and>
      color (down (snd (CenterDown c s))) = c \<and>
      (snd (CenterDown c s) = s \<or>
       (\<exists>t \<in> set [X2, XPrime, Z, X, ZPrime]. ApplyWCAMoves t s = (None, snd (CenterDown c s))))) \<and>
   (c \<notin> set (centerColors s) \<longrightarrow> CenterDown c s = (Some (Errorf c ErrColor), s))"
proof (intro conjI impI)
  assume c: "c \<in> set (centerColors s)"
  then show "fst (CenterDown c s) = None" by (simp add: CenterDown_found)
  from c show "color (down (snd (CenterDown c s))) = c" by (simp add: CenterDown_found)
  from c show "snd (CenterDown c s) = s \<or>
       (\<exists>t \<in> set [X2, XPrime, Z, X, ZPrime]. ApplyWCAMoves t s = (None, snd (CenterDown c s)))"
    by (simp add: CenterDown_cases centerColors_def ApplyWCAMoves_token wcaMove_tokens)
next
  assume "c \<notin> set (centerColors s)"
  then show "CenterDown c s = (Some (Errorf c ErrColor), s)" by (rule CenterDown_missing)
qed

theorem CenterDown_correct_witness:
  "''green'' \<in> set (centerColors solved) \<and>
   fst (CenterDown ''green'' solved) = None \<and>
   color (down (snd (CenterDown ''green'' solved))) = ''green'' \<and>
   ''purple'' \<notin> set (centerColors solved) \<and>
   CenterDown ''purple'' solved = (Some (Errorf ''purple'' ErrColor), solved)"
proof -
  have g: "''green'' \<in> set (centerColors solved)"
    by (simp add: centerColors_def solved_def New_def)
  have p: "''purple'' \<notin> set (centerColors solved)"
    by (simp add: centerColors_def solved_def New_def)
  from CenterDown_correct [of "''green''" solved] CenterDown_correct [of "''purple''" solved] g p
  show ?thesis by blast
qed

text \<open>
  C2, as amended. \<open>FullMirror a b\<close> compares the signature of \<open>a\<close> with that of
  \<open>b\<close>, first unrotated and then after each string of a fixed list of 23 rotation
  strings, undoing every rotation through \<open>createReverse\<close>: the result is true
  exactly when one of these 24 comparisons matches, and \<open>b\<close> is left as it was.
\<close>

theorem FullMirror_trials:
  "FullMirror a b =
     (fullMirror a b \<or>
        (\<exists>r \<in> set fullMirrorRotations. fullMirror a (snd (ApplyWCAMoves r b))), b) \<and>
   fullMirror a b = (getRelativeColors a = getRelativeColors b) \<and>
   length fullMirrorRotations = 23"
  using FullMirrorLoop_char [OF rotations_valid, of a b]
  by (simp add: FullMirror_def fullMirror_def flag_defs
      fullMirrorRotations_def [THEN arg_cong [where f = length]])

text \<open>
  C5, as amended. When \<open>OneLayerMirror a b layerColor\<close> returns, \<open>a\<close> is as
  \<open>CenterDown layerColor\<close> left it and \<open>b\<close> as \<open>CenterDown\<close> of the down colour of
  \<open>a\<close> left it: each trial rotation \<^verbatim>\<open>y\<close>, \<^verbatim>\<open>y'\<close>, \<^verbatim>\<open>y2\<close> is undone through
  \<open>createReverse\<close>, after a failed attempt and after the successful one alike. The
  result is true exactly when the patterns match unrotated or after one of the three.
\<close>

theorem OneLayerMirror_restores:
  assumes "fst (OneLayerMirror a b lc) = Inr res"
  shows "snd (OneLayerMirror a b lc) =
           (snd (CenterDown lc a),
            snd (CenterDown (color (down (snd (CenterDown lc a)))) b)) \<and>
         res =
           (oneLayerMirror (snd (CenterDown lc a))
              (snd (CenterDown (color (down (snd (CenterDown lc a)))) b)) lc = Inr True \<or>
            (\<exists>r \<in> set [Y, YPrime, Y2].
               oneLayerMirror (snd (CenterDown lc a))
                 (snd (ApplyWCAMoves r
                    (snd (CenterDown (color (down (snd (CenterDown lc a)))) b)))) lc = Inr True))"
proof -
  define a1 where "a1 = snd (CenterDown lc a)"
  define b1 where "b1 = snd (CenterDown (color (down a1)) b)"
  show ?thesis
  proof (cases "oneLayerMirror a1 b1 lc")
    case (Inl p)
    with assms show ?thesis by (simp add: OneLayerMirror_def a1_def b1_def Let_def)
  next
    case (Inr m)
    show ?thesis
    proof (cases m)
      case True
      with Inr assms show ?thesis
        by (auto simp: OneLayerMirror_def a1_def b1_def Let_def flag_defs)
    next
      case False
      with Inr assms have "fst (OneLayerMirrorLoop [Y, YPrime, Y2] a1 b1 lc) = Inr res"
        by (simp add: OneLayerMirror_def a1_def b1_def Let_def)
      from OneLayerMirrorLoop_char [OF spins_valid this] Inr False show ?thesis
        by (simp add: OneLayerMirror_def a1_def b1_def Let_def)
    qed
  qed
qed

text \<open>
  C6, as amended. When the down colour of \<open>a\<close> is on no center of \<open>b\<close>,
  \<open>CenterDown\<close> returns the color-not-found error, \<open>Equal a b\<close> drops it, returns
  false and leaves \<open>b\<close> turned by three \<^verbatim>\<open>y\<close>.
\<close>

theorem Equal_drops_error:
  assumes "color (down a) \<notin> set (centerColors b)"
  shows "fst (CenterDown (color (down a)) b) = Some (Errorf (color (down a)) ErrColor) \<and>
         Equal a b = (False, snd (ApplyWCAMoves ''y y y'' b))"
proof -
  from assms have d: "color (down a) \<noteq> color (down b)" by (simp add: centerColors_def)
  note c = CenterDown_missing [OF assms]
  have 3: "(3::nat) = Suc (Suc (Suc 0))" by simp
  from d show ?thesis
    by (simp add: c Equal_def 3 Let_def equal_m_down down_Y yyy flag_defs)
qed

section \<open>Examples and counterexamples\<close>

text \<open>
  The theorem of C2 at a state turned by \<^verbatim>\<open>R\<close> and the same state turned by
  \<^verbatim>\<open>y\<close> after it: the signatures differ unrotated and agree after \<^verbatim>\<open>y'\<close>.
\<close>

theorem FullMirror_trials_witness:
  "\<not> fullMirror solvedR solvedRY \<and> YPrime \<in> set fullMirrorRotations \<and>
   fullMirror solvedR (snd (ApplyWCAMoves YPrime solvedRY)) \<and>
   FullMirror solvedR solvedRY = (True, solvedRY)"
proof -
  have 1: "\<not> fullMirror solvedR solvedRY" by code_simp
  have 2: "YPrime \<in> set fullMirrorRotations" by (simp add: fullMirrorRotations_def)
  have 3: "fullMirror solvedR (snd (ApplyWCAMoves YPrime solvedRY))" by code_simp
  from FullMirror_trials [of solvedR solvedRY] 1 2 3 show ?thesis by auto
qed

text \<open>C2 as stated speaks of a list of 24 rotation strings; the list has 23.\<close>

theorem FullMirror_rotations_counterexample: "length fullMirrorRotations \<noteq> 24"
  by (simp add: fullMirrorRotations_def)

text \<open>
  C5 as stated leaves the successful rotation applied. Here the patterns differ
  unrotated and agree after \<^verbatim>\<open>y'\<close>; the call returns true and leaves the second
  state as \<open>CenterDown\<close> left it, not turned by \<^verbatim>\<open>y'\<close>.
\<close>

theorem OneLayerMirror_counterexample:
  "oneLayerMirror (snd (CenterDown ''blue'' solvedR))
     (snd (CenterDown (color (down (snd (CenterDown ''blue'' solvedR)))) solvedRY)) ''blue''
     = Inr False \<and>
   oneLayerMirror (snd (CenterDown ''blue'' solvedR))
     (snd (ApplyWCAMoves YPrime
        (snd (CenterDown (color (down (snd (CenterDown ''blue'' solvedR)))) solvedRY)))) ''blue''
     = Inr True \<and>
   fst (OneLayerMirror solvedR solvedRY ''blue'') = Inr True \<and>
   snd (snd (OneLayerMirror solvedR solvedRY ''blue'')) =
     snd (CenterDown (color (down (snd (CenterDown ''blue'' solvedR)))) solvedRY) \<and>
   snd (snd (OneLayerMirror solvedR solvedRY ''blue'')) \<noteq>
     snd (ApplyWCAMoves YPrime
        (snd (CenterDown (color (down (snd (CenterDown ''blue'' solvedR)))) solvedRY)))"
  by code_simp

theorem OneLayerMirror_restores_witness:
  "fst (OneLayerMirror solvedR solvedRY ''blue'') = Inr True \<and>
   snd (OneLayerMirror solvedR solvedRY ''blue'') =
     (snd (CenterDown ''blue'' solvedR),
      snd (CenterDown (color (down (snd (CenterDown ''blue'' solvedR)))) solvedRY))"
proof -
  have h: "fst (OneLayerMirror solvedR solvedRY ''blue'') = Inr True" by code_simp
  from OneLayerMirror_restores [OF h] h show ?thesis by simp
qed

text \<open>
  C6 as stated has \<open>Equal\<close> signal the color-not-found error. Here the down colour of
  the first state is on no center of the second, \<open>CenterDown\<close> returns the error,
  and \<open>Equal\<close> returns false.
\<close>

theorem Equal_counterexample:
  "color (down solved) \<notin> set (centerColors pinkDown) \<and>
   fst (CenterDown (color (down solved)) pinkDown) = Some (Errorf ''yellow'' ErrColor) \<and>
   fst (Equal solved pinkDown) = False"
  by code_simp

theorem Equal_drops_error_witness:
  "color (down solved) \<notin> set (centerColors pinkDown) \<and>
   fst (CenterDown (color (down solved)) pinkDown) = Some (Errorf ''yellow'' ErrColor) \<and>
   Equal solved pinkDown = (False, snd (ApplyWCAMoves ''y y y'' pinkDown))"
proof -
  have h: "color (down solved) \<notin> set (centerColors pinkDown)"
    by (simp add: centerColors_def solved_def pinkDown_def New_def)
  have d: "color (down solved) = ''yellow''" by (simp add: solved_def New_def)
  from Equal_drops_error [OF h] h d show ?thesis by simp
qed

section \<open>Further claims\<close>

text \<open>
  C4. \<open>Equal\<close> leaves its second argument changed: with a solved first state, a
  copy turned by \<^verbatim>\<open>y\<close> makes \<open>Equal\<close> return true and a copy turned by \<^verbatim>\<open>R\<close>
  makes it return false, and in both cases the second state after the call is not
  \<open>ExactEqual\<close> to the one before.
\<close>

theorem Equal_leaves_other_changed:
  "fst (Equal solved solvedY) = True \<and>
   \<not> ExactEqual (snd (Equal solved solvedY)) solvedY \<and>
   fst (Equal solved solvedR) = False \<and>
   \<not> ExactEqual (snd (Equal solved solvedR)) solvedR"
  by code_simp

text \<open>
  C7. No operation panics. The code does: \<open>OneLayerMirror\<close> with a layer colour
  that is on no corner of the receiver indexes \<^verbatim>\<open>layerCorners[0]\<close> of an empty
  slice, and with a colour on more than four corners it writes row 4 of a
  \<^verbatim>\<open>[4][3]int\<close>.
\<close>

theorem OneLayerMirror_panics:
  "fst (OneLayerMirror solved solved ''purple'') = Inl IndexOutOfRange \<and>
   getLayerColor [] ''purple'' = Inl IndexOutOfRange \<and>
   fst (OneLayerMirror (New ''a'' ''a'' ''a'' ''a'' ''a'' ''a'') solved ''a'') = Inl IndexOutOfRange"
  by code_simp

text \<open>
  C9. The unsupported-move error restates the vocabulary of the notation. The error
  of \<open>ApplyRubiskewbMoves\<close> is built from \<open>ErrWCAMove\<close> as that of \<open>ApplyWCAMoves\<close>
  is: it lists every WCA token, it lists none of the ten Rubiskewb tokens
  \<^verbatim>\<open>r r' b b' l l' F F' f f'\<close>, and it lists \<^verbatim>\<open>U\<close> and \<^verbatim>\<open>U'\<close>, which
  \<open>ApplyRubiskewbMoves\<close> rejects.
\<close>

theorem Rubiskewb_error_lists_WCA:
  "ApplyRubiskewbMoves ''Q'' s = (Some (Errorf ''Q'' ErrWCAMove), s) \<and>
   ApplyWCAMoves ''Q'' s = (Some (Errorf ''Q'' ErrWCAMove), s) \<and>
   ApplyRubiskewbMoves U s = (Some (Errorf U ErrWCAMove), s) \<and>
   filter (\<lambda>t. \<not> lists ErrWCAMove t) wcaVocabulary = [] \<and>
   filter (\<lambda>t. \<not> lists ErrWCAMove t) rubiskewbVocabulary =
     [LittleR, LittleRPrime, LittleB, LittleBPrime, LittleL, LittleLPrime, F, FPrime,
      LittleF, LittleFPrime] \<and>
   filter (lists ErrWCAMove) (filter (\<lambda>t. t \<notin> set rubiskewbVocabulary) wcaVocabulary) =
     [U, UPrime]"
proof -
  have 1: "ApplyRubiskewbMoves ''Q'' s = (Some (Errorf ''Q'' ErrWCAMove), s)"
    by (simp add: ApplyRubiskewbMoves_def rubiskewbMove_def Move_defs space_def)
  have 2: "ApplyWCAMoves ''Q'' s = (Some (Errorf ''Q'' ErrWCAMove), s)"
    by (simp add: ApplyWCAMoves_def wcaMove_def Move_defs space_def)
  have 3: "ApplyRubiskewbMoves U s = (Some (Errorf U ErrWCAMove), s)"
    by (simp add: ApplyRubiskewbMoves_def rubiskewbMove_def Move_defs space_def)
  have 4: "filter (\<lambda>t. \<not> lists ErrWCAMove t) wcaVocabulary = []" by code_simp
  have 5: "filter (\<lambda>t. \<not> lists ErrWCAMove t) rubiskewbVocabulary =
     [LittleR, LittleRPrime, LittleB, LittleBPrime, LittleL, LittleLPrime, F, FPrime,
      LittleF, LittleFPrime]" by code_simp
  have 6: "filter (lists ErrWCAMove) (filter (\<lambda>t. t \<notin> set rubiskewbVocabulary) wcaVocabulary) =
     [U, UPrime]" by code_simp
  from 1 2 3 4 5 6 show ?thesis by blast
qed

end
